theory Spec2Isabelle
  imports Complex_Main "HOL-Library.Word" "HOL-Library.List_Lexorder"
begin

unbundle bit_operations_syntax

section \<open>Python values\<close>

text \<open>
  The module under verification is \<^verbatim>\<open>handlers/tbank.py\<close>: the class \<^verbatim>\<open>TBankManager\<close> with
  \<^verbatim>\<open>init_tbank\<close>, \<^verbatim>\<open>_post\<close> (and its nested \<^verbatim>\<open>_generate_token\<close>), \<^verbatim>\<open>create_payment\<close> and
  \<^verbatim>\<open>check_payment\<close>.

  A Python \<^verbatim>\<open>str\<close> is a sequence of Unicode code points. It is modelled as the list of
  its code points, so that comparison (code point by code point, a proper prefix first:
  the order of \<^verbatim>\<open>List_Lexorder\<close>), concatenation and the UTF-8 encoder are those
  of Python. \<open>ascii\<close> writes an ASCII literal.
\<close>

type_synonym pystr = "nat list"

definition ascii :: "string \<Rightarrow> pystr" where
  "ascii s = map of_char s"

text \<open>
  Exceptions, by class. The handlers of the module are all \<^verbatim>\<open>except Exception\<close>: they
  catch the classes that derive from \<^verbatim>\<open>Exception\<close> and let pass the ones that derive
  from \<^verbatim>\<open>BaseException\<close> only (\<^verbatim>\<open>asyncio.CancelledError\<close> since Python 3.8,
  \<^verbatim>\<open>KeyboardInterrupt\<close>, \<^verbatim>\<open>SystemExit\<close>). \<open>CollaboratorError\<close> stands for any other
  subclass of \<^verbatim>\<open>Exception\<close> that a collaborator raises (a network error, a database
  error, a JSON decoding error), tagged with its name.
\<close>

datatype exn =
    AttributeError
  | IndexError
  | ValueError
  | OverflowError
  | UnicodeEncodeError
  | CollaboratorError string
  | CancelledError
  | KeyboardInterrupt
  | SystemExit

fun is_Exception :: "exn \<Rightarrow> bool" where
  "is_Exception CancelledError = False"
| "is_Exception KeyboardInterrupt = False"
| "is_Exception SystemExit = False"
| "is_Exception _ = True"

subsection \<open>Floats\<close>

text \<open>
  A Python \<^verbatim>\<open>float\<close> is an IEEE 754 binary64 value. \<open>Finite s m e\<close> is the number
  \<open>(-1)\<^sup>s * m * 2\<^sup>e\<close>; a double is such a number with \<open>m < 2\<^sup>5\<^sup>3\<close>, \<open>-1074 \<le> e\<close> and
  magnitude below \<open>2\<^sup>1\<^sup>0\<^sup>2\<^sup>4\<close> (\<open>is_double\<close>). The representation is not unique, and
  the operations below do not depend on which one is given.
\<close>

datatype pyfloat = Finite bool nat int | Infinity bool | NaN

function bit_length :: "nat \<Rightarrow> nat" where
  "bit_length n = (if n = 0 then 0 else Suc (bit_length (n div 2)))"
  by pat_completeness auto
termination
  by (relation "measure id") auto

declare bit_length.simps [simp del]

fun is_double :: "pyfloat \<Rightarrow> bool" where
  "is_double (Finite s m e) =
     (m < 2 ^ 53 \<and> - 1074 \<le> e \<and> (0 \<le> e \<and> m \<noteq> 0 \<longrightarrow> bit_length m + nat e \<le> 1024))"
| "is_double _ = True"

text \<open>
  \<open>round_double s M E\<close> is the double nearest to \<open>(-1)\<^sup>s * M * 2\<^sup>E\<close>, ties to the even
  mantissa (the rounding of every IEEE operation of CPython): \<open>k\<close> low bits of \<open>M\<close> are
  dropped so that 53 bits are left and the exponent is not below \<open>-1074\<close>; a result of
  magnitude \<open>2\<^sup>1\<^sup>0\<^sup>2\<^sup>4\<close> or more overflows to an infinity.
\<close>

definition round_double :: "bool \<Rightarrow> nat \<Rightarrow> int \<Rightarrow> pyfloat" where
  "round_double s M E =
     (let k = nat (max 0 (max (int (bit_length M) - 53) (- 1074 - E)));
          q = M div 2 ^ k;
          r = M mod 2 ^ k;
          q' = (if 2 * r > 2 ^ k \<or> (2 * r = 2 ^ k \<and> odd q) then q + 1 else q);
          E' = E + int k
      in if 0 \<le> E' \<and> q' \<noteq> 0 \<and> bit_length q' + nat E' > 1024 then Infinity s
         else Finite s q' E')"

text \<open>\<^verbatim>\<open>x * y\<close> on two floats.\<close>

fun float_mul :: "pyfloat \<Rightarrow> pyfloat \<Rightarrow> pyfloat" where
  "float_mul (Finite s1 m1 e1) (Finite s2 m2 e2) = round_double (s1 \<noteq> s2) (m1 * m2) (e1 + e2)"
| "float_mul (Finite s1 m1 e1) (Infinity s2) = (if m1 = 0 then NaN else Infinity (s1 \<noteq> s2))"
| "float_mul (Infinity s1) (Finite s2 m2 e2) = (if m2 = 0 then NaN else Infinity (s1 \<noteq> s2))"
| "float_mul (Infinity s1) (Infinity s2) = Infinity (s1 \<noteq> s2)"
| "float_mul NaN _ = NaN"
| "float_mul _ NaN = NaN"

text \<open>
  The \<^verbatim>\<open>int\<close> operand of the mixed product \<^verbatim>\<open>amount * 100\<close> is converted to the
  float \<^verbatim>\<open>100.0\<close> first.
\<close>

definition float_100 :: pyfloat where
  "float_100 = Finite False 100 0"

text \<open>
  \<^verbatim>\<open>int(x)\<close> on a float truncates towards zero; it raises \<^verbatim>\<open>OverflowError\<close> on an
  infinity and \<^verbatim>\<open>ValueError\<close> on a NaN.
\<close>

fun int_of_float :: "pyfloat \<Rightarrow> exn + int" where
  "int_of_float (Finite s m e) =
     (let a = (if 0 \<le> e then int m * 2 ^ nat e else int m div 2 ^ nat (- e))
      in Inr (if s then - a else a))"
| "int_of_float (Infinity s) = Inl OverflowError"
| "int_of_float NaN = Inl ValueError"

subsection \<open>Values\<close>

text \<open>
  The values the module handles: what a JSON body holds (\<^verbatim>\<open>None\<close>, \<^verbatim>\<open>bool\<close>, \<^verbatim>\<open>int\<close>,
  \<^verbatim>\<open>float\<close>, \<^verbatim>\<open>str\<close>, \<^verbatim>\<open>list\<close>, \<^verbatim>\<open>dict\<close> with string keys) and what a database column
  holds. A \<^verbatim>\<open>dict\<close> keeps its keys in insertion order: it is the list of its items in
  that order, with distinct keys.
\<close>

datatype pyval =
    VNone
  | VBool bool
  | VInt int
  | VFloat pyfloat
  | VStr pystr
  | VList "pyval list"
  | VDict "(pystr \<times> pyval) list"

type_synonym dict = "(pystr \<times> pyval) list"

text \<open>\<^verbatim>\<open>d[k] = v\<close>: a key already present keeps its place, a new key goes last.\<close>

fun dict_set :: "dict \<Rightarrow> pystr \<Rightarrow> pyval \<Rightarrow> dict" where
  "dict_set [] k v = [(k, v)]"
| "dict_set ((k', v') # d) k v = (if k' = k then (k, v) # d else (k', v') # dict_set d k v)"

text \<open>\<^verbatim>\<open>bool(v)\<close>, the truth value that \<^verbatim>\<open>not\<close>, \<^verbatim>\<open>and\<close>, \<^verbatim>\<open>or\<close> and \<^verbatim>\<open>if\<close> test.\<close>

fun truthy :: "pyval \<Rightarrow> bool" where
  "truthy VNone = False"
| "truthy (VBool b) = b"
| "truthy (VInt i) = (i \<noteq> 0)"
| "truthy (VFloat (Finite s m e)) = (m \<noteq> 0)"
| "truthy (VFloat _) = True"
| "truthy (VStr s) = (s \<noteq> [])"
| "truthy (VList xs) = (xs \<noteq> [])"
| "truthy (VDict d) = (d \<noteq> [])"

text \<open>
  \<^verbatim>\<open>v.get(k)\<close> and \<^verbatim>\<open>v.get(k, default)\<close>: only a \<^verbatim>\<open>dict\<close> has the method, every other
  value raises \<^verbatim>\<open>AttributeError\<close>.
\<close>

fun py_get_default :: "pyval \<Rightarrow> pystr \<Rightarrow> pyval \<Rightarrow> exn + pyval" where
  "py_get_default (VDict d) k dflt = Inr (case map_of d k of None \<Rightarrow> dflt | Some v \<Rightarrow> v)"
| "py_get_default _ k dflt = Inl AttributeError"

definition py_get :: "pyval \<Rightarrow> pystr \<Rightarrow> exn + pyval" where
  "py_get v k = py_get_default v k VNone"

text \<open>\<^verbatim>\<open>v == s\<close> for a string \<open>s\<close>, and \<^verbatim>\<open>v == n\<close> for an integer \<open>n\<close> (numbers compare by value).\<close>

fun py_eq_str :: "pyval \<Rightarrow> pystr \<Rightarrow> bool" where
  "py_eq_str (VStr s) t = (s = t)"
| "py_eq_str _ t = False"

fun py_eq_int :: "pyval \<Rightarrow> int \<Rightarrow> bool" where
  "py_eq_int (VInt i) n = (i = n)"
| "py_eq_int (VBool b) n = ((if b then 1 else 0) = n)"
| "py_eq_int (VFloat (Finite s m e)) n =
     (let a = (if s then - int m else int m)
      in if 0 \<le> e then a * 2 ^ nat e = n else a = n * 2 ^ nat (- e))"
| "py_eq_int _ n = False"

text \<open>\<^verbatim>\<open>row[i]\<close> on a database row (a tuple): \<^verbatim>\<open>IndexError\<close> past its end.\<close>

definition row_index :: "pyval list \<Rightarrow> nat \<Rightarrow> exn + pyval" where
  "row_index row i = (if i < length row then Inr (row ! i) else Inl IndexError)"

subsection \<open>Text of a value\<close>

function nat_digits :: "nat \<Rightarrow> pystr" where
  "nat_digits n = (if n < 10 then [48 + n] else nat_digits (n div 10) @ [48 + n mod 10])"
  by pat_completeness auto
termination
  by (relation "measure id") auto

declare nat_digits.simps [simp del]

definition str_int :: "int \<Rightarrow> pystr" where
  "str_int i = (if i < 0 then 45 # nat_digits (nat (- i)) else nat_digits (nat i))"

text \<open>\<^verbatim>\<open>sep.join(xs)\<close>.\<close>

fun str_join :: "pystr \<Rightarrow> pystr list \<Rightarrow> pystr" where
  "str_join sep [] = []"
| "str_join sep [x] = x"
| "str_join sep (x # y # ys) = x @ sep @ str_join sep (y # ys)"

text \<open>
  \<^verbatim>\<open>repr\<close> of a string (the choice of quotes and the escapes follow the Unicode
  database) and of a float (the shortest decimal that reads back) are functions of the
  interpreter; they are parameters of the model.
\<close>

record pylib =
  repr_str :: "pystr \<Rightarrow> pystr"
  repr_float :: "pyfloat \<Rightarrow> pystr"

fun py_repr :: "pylib \<Rightarrow> pyval \<Rightarrow> pystr" where
  "py_repr L VNone = ascii ''None''"
| "py_repr L (VBool b) = (if b then ascii ''True'' else ascii ''False'')"
| "py_repr L (VInt i) = str_int i"
| "py_repr L (VFloat x) = repr_float L x"
| "py_repr L (VStr s) = repr_str L s"
| "py_repr L (VList xs) = ascii ''['' @ str_join (ascii '', '') (map (py_repr L) xs) @ ascii '']''"
| "py_repr L (VDict d) =
     ascii ''{'' @
     str_join (ascii '', '') (map (\<lambda>kv. repr_str L (fst kv) @ ascii '': '' @ py_repr L (snd kv)) d) @
     ascii ''}''"

text \<open>\<^verbatim>\<open>str(v)\<close>: a string is its own text, every other value prints as its \<^verbatim>\<open>repr\<close>.\<close>

fun py_str :: "pylib \<Rightarrow> pyval \<Rightarrow> pystr" where
  "py_str L (VStr s) = s"
| "py_str L v = py_repr L v"

section \<open>The request signature\<close>

subsection \<open>UTF-8\<close>

type_synonym byte = "8 word"

text \<open>
  \<^verbatim>\<open>s.encode()\<close>: the strict UTF-8 encoder. A surrogate code point (\<^verbatim>\<open>U+D800\<close> to
  \<^verbatim>\<open>U+DFFF\<close>), which a Python \<^verbatim>\<open>str\<close> can hold, raises \<^verbatim>\<open>UnicodeEncodeError\<close>. A
  \<^verbatim>\<open>str\<close> holds no code point above \<^verbatim>\<open>U+10FFFF\<close>; the encoder answers the same on such
  a number.
\<close>

definition utf8_char :: "nat \<Rightarrow> exn + byte list" where
  "utf8_char c =
     (if c < 0x80 then Inr [of_nat c]
      else if c < 0x800 then Inr [of_nat (0xC0 + c div 64), of_nat (0x80 + c mod 64)]
      else if 0xD800 \<le> c \<and> c \<le> 0xDFFF then Inl UnicodeEncodeError
      else if c < 0x10000 then
        Inr [of_nat (0xE0 + c div 4096), of_nat (0x80 + c div 64 mod 64), of_nat (0x80 + c mod 64)]
      else if c < 0x110000 then
        Inr [of_nat (0xF0 + c div 262144), of_nat (0x80 + c div 4096 mod 64),
             of_nat (0x80 + c div 64 mod 64), of_nat (0x80 + c mod 64)]
      else Inl UnicodeEncodeError)"

fun utf8_encode :: "pystr \<Rightarrow> exn + byte list" where
  "utf8_encode [] = Inr []"
| "utf8_encode (c # cs) =
     (case utf8_char c of
        Inl err \<Rightarrow> Inl err
      | Inr bs \<Rightarrow> (case utf8_encode cs of Inl err \<Rightarrow> Inl err | Inr rest \<Rightarrow> Inr (bs @ rest)))"

subsection \<open>SHA-256\<close>

text \<open>
  \<^verbatim>\<open>hashlib.sha256(b).hexdigest()\<close>: the hash function of FIPS 180-4 on a byte string,
  printed as 64 lowercase hexadecimal digits.
\<close>

type_synonym w32 = "32 word"

definition sha_k :: "w32 list" where
  "sha_k =
    [0x428A2F98, 0x71374491, 0xB5C0FBCF, 0xE9B5DBA5, 0x3956C25B, 0x59F111F1,
     0x923F82A4, 0xAB1C5ED5, 0xD807AA98, 0x12835B01, 0x243185BE, 0x550C7DC3,
     0x72BE5D74, 0x80DEB1FE, 0x9BDC06A7, 0xC19BF174, 0xE49B69C1, 0xEFBE4786,
     0x0FC19DC6, 0x240CA1CC, 0x2DE92C6F, 0x4A7484AA, 0x5CB0A9DC, 0x76F988DA,
     0x983E5152, 0xA831C66D, 0xB00327C8, 0xBF597FC7, 0xC6E00BF3, 0xD5A79147,
     0x06CA6351, 0x14292967, 0x27B70A85, 0x2E1B2138, 0x4D2C6DFC, 0x53380D13,
     0x650A7354, 0x766A0ABB, 0x81C2C92E, 0x92722C85, 0xA2BFE8A1, 0xA81A664B,
     0xC24B8B70, 0xC76C51A3, 0xD192E819, 0xD6990624, 0xF40E3585, 0x106AA070,
     0x19A4C116, 0x1E376C08, 0x2748774C, 0x34B0BCB5, 0x391C0CB3, 0x4ED8AA4A,
     0x5B9CCA4F, 0x682E6FF3, 0x748F82EE, 0x78A5636F, 0x84C87814, 0x8CC70208,
     0x90BEFFFA, 0xA4506CEB, 0xBEF9A3F7, 0xC67178F2]"

definition sha_h0 :: "w32 list" where
  "sha_h0 =
    [0x6A09E667, 0xBB67AE85, 0x3C6EF372, 0xA54FF53A, 0x510E527F, 0x9B05688C,
     0x1F83D9AB, 0x5BE0CD19]"

definition ch :: "w32 \<Rightarrow> w32 \<Rightarrow> w32 \<Rightarrow> w32" where
  "ch x y z = (x AND y) XOR (NOT x AND z)"

definition maj :: "w32 \<Rightarrow> w32 \<Rightarrow> w32 \<Rightarrow> w32" where
  "maj x y z = (x AND y) XOR (x AND z) XOR (y AND z)"

definition big_sigma0 :: "w32 \<Rightarrow> w32" where
  "big_sigma0 x = word_rotr 2 x XOR word_rotr 13 x XOR word_rotr 22 x"

definition big_sigma1 :: "w32 \<Rightarrow> w32" where
  "big_sigma1 x = word_rotr 6 x XOR word_rotr 11 x XOR word_rotr 25 x"

definition small_sigma0 :: "w32 \<Rightarrow> w32" where
  "small_sigma0 x = word_rotr 7 x XOR word_rotr 18 x XOR drop_bit 3 x"

definition small_sigma1 :: "w32 \<Rightarrow> w32" where
  "small_sigma1 x = word_rotr 17 x XOR word_rotr 19 x XOR drop_bit 10 x"

text \<open>
  Padding: the byte \<^verbatim>\<open>0x80\<close>, zero bytes up to 56 modulo 64, and the length of the
  message in bits as 8 bytes, most significant first.
\<close>

definition sha_pad :: "byte list \<Rightarrow> byte list" where
  "sha_pad msg =
     (let n = length msg
      in msg @ [0x80] @ replicate ((119 - n mod 64) mod 64) 0 @
         map (\<lambda>i. of_nat (8 * n div 256 ^ (7 - i) mod 256)) [0 ..< 8])"

fun be_words :: "byte list \<Rightarrow> w32 list" where
  "be_words (a # b # c # d # rest) =
     (push_bit 24 (ucast a) OR push_bit 16 (ucast b) OR push_bit 8 (ucast c) OR ucast d) #
     be_words rest"
| "be_words _ = []"

function sha_blocks :: "w32 list \<Rightarrow> w32 list list" where
  "sha_blocks ws = (if ws = [] then [] else take 16 ws # sha_blocks (drop 16 ws))"
  by pat_completeness auto
termination
  by (relation "measure length") auto

declare sha_blocks.simps [simp del]

text \<open>The message schedule: 48 words are appended to the 16 words of the block.\<close>

fun sha_schedule :: "nat \<Rightarrow> w32 list \<Rightarrow> w32 list" where
  "sha_schedule 0 w = w"
| "sha_schedule (Suc n) w =
     (let t = length w
      in sha_schedule n
           (w @ [small_sigma1 (w ! (t - 2)) + w ! (t - 7) + small_sigma0 (w ! (t - 15)) + w ! (t - 16)]))"

fun sha_round :: "w32 list \<Rightarrow> w32 \<times> w32 \<Rightarrow> w32 list" where
  "sha_round [a, b, c, d, e, f, g, h] (k, w) =
     (let t1 = h + big_sigma1 e + ch e f g + k + w;
          t2 = big_sigma0 a + maj a b c
      in [t1 + t2, a, b, c, d + t1, e, f, g])"
| "sha_round st (k, w) = st"

definition sha_compress :: "w32 list \<Rightarrow> w32 list \<Rightarrow> w32 list" where
  "sha_compress hs block =
     map2 (+) hs (foldl sha_round hs (zip sha_k (sha_schedule 48 block)))"

definition sha256 :: "byte list \<Rightarrow> w32 list" where
  "sha256 msg = foldl sha_compress sha_h0 (sha_blocks (be_words (sha_pad msg)))"

definition hex_digit :: "nat \<Rightarrow> nat" where
  "hex_digit d = (if d < 10 then 48 + d else 87 + d)"

definition hex_word :: "w32 \<Rightarrow> pystr" where
  "hex_word w = map (\<lambda>i. hex_digit (unat w div 16 ^ (7 - i) mod 16)) [0 ..< 8]"

definition hexdigest :: "w32 list \<Rightarrow> pystr" where
  "hexdigest ws = concat (map hex_word ws)"

subsection \<open>The token\<close>

text \<open>
  \<^verbatim>\<open>_generate_token(payload)\<close>, the function nested in \<^verbatim>\<open>_post\<close>; \<open>pw\<close> is
  \<^verbatim>\<open>self.password\<close>, which the closure reads. \<^verbatim>\<open>sorted(payload.items())\<close> orders the
  pairs \<^verbatim>\<open>(key, value)\<close>; two pairs compare by their keys and would compare by their
  values only under equal keys, which a \<^verbatim>\<open>dict\<close> does not hold: the sort is by key.
\<close>

definition generate_token :: "pylib \<Rightarrow> pyval \<Rightarrow> dict \<Rightarrow> exn + pystr" where
  "generate_token L pw payload =
     (let payload1 = dict_set payload (ascii ''Password'') pw;
          sorted_items = sort_key fst payload1;
          token_str = concat (map (\<lambda>kv. py_str L (snd kv)) sorted_items)
      in case utf8_encode token_str of
           Inl err \<Rightarrow> Inl err
         | Inr bs \<Rightarrow> Inr (hexdigest (sha256 bs)))"

section \<open>The client and its collaborators\<close>

text \<open>The fields of \<^verbatim>\<open>TBankManager\<close>, and \<^verbatim>\<open>__init__\<close>.\<close>

record client =
  is_initialized :: bool
  base_url :: pystr
  terminal_key :: pyval
  password :: pyval

definition new_client :: client where
  "new_client =
     \<lparr>is_initialized = False, base_url = ascii ''https://ecom.tinkoff.ru/api/v2/'',
      terminal_key = VNone, password = VNone\<rparr>"

text \<open>
  What the module does to the outside, in the order it does it: the read of the
  credentials (\<^verbatim>\<open>db.get_tbank_settings()\<close>), the HTTP request (\<^verbatim>\<open>session.post(url, json=data)\<close>,
  with its URL and the body it is given), the read of \<^verbatim>\<open>pay_notify\<close>, the call
  \<^verbatim>\<open>bot.send_message(chat_id, text, parse_mode, reply_markup)\<close>, and the log lines
  (\<^verbatim>\<open>logger.info\<close>, \<^verbatim>\<open>logger.error\<close>; their text is not modelled).
\<close>

datatype event =
    DbGetSettings
  | HttpPost pystr dict
  | DbPayNotify
  | SendMessage pyval pystr pystr pyval
  | LogInfo
  | LogError

text \<open>
  The collaborators, as they answer during one call of the module. Each either raises
  (\<open>Inl\<close>) or returns (\<open>Inr\<close>):
  \<^item> \<open>get_tbank_settings\<close>: \<^verbatim>\<open>await db.get_tbank_settings()\<close>, a row or \<^verbatim>\<open>None\<close>;
  \<^item> \<open>http_post url body\<close>: the two \<^verbatim>\<open>async with\<close> blocks of \<^verbatim>\<open>_post\<close> up to
    \<^verbatim>\<open>await response.json()\<close>, whose answer is any JSON value;
  \<^item> \<open>fetch_pay_notify\<close>: \<^verbatim>\<open>aiosqlite.connect\<close>, the \<^verbatim>\<open>SELECT\<close> and \<^verbatim>\<open>fetchone()\<close>, a row
    or \<^verbatim>\<open>None\<close>;
  \<^item> \<open>get_admin_keyboard\<close>: \<^verbatim>\<open>get_admin_keyboard()\<close>;
  \<^item> \<open>uuid4\<close>: \<^verbatim>\<open>str(uuid.uuid4())\<close>; \<open>now\<close>: \<^verbatim>\<open>datetime.now().strftime(...)\<close>.
  The \<^verbatim>\<open>bot\<close> argument of \<^verbatim>\<open>check_payment\<close> (\<open>tbot\<close> below) is \<^verbatim>\<open>None\<close> or an
  object whose \<^verbatim>\<open>send_message\<close> raises or returns.
\<close>

record env =
  get_tbank_settings :: "exn + pyval list option"
  http_post :: "pystr \<Rightarrow> dict \<Rightarrow> exn + pyval"
  fetch_pay_notify :: "exn + pyval list option"
  get_admin_keyboard :: "exn + pyval"
  uuid4 :: pystr
  now :: pystr

type_synonym notifier = "pyval \<Rightarrow> pystr \<Rightarrow> pystr \<Rightarrow> pyval \<Rightarrow> exn + unit"

section \<open>\<^verbatim>\<open>init_tbank\<close>\<close>

text \<open>
  The test \<^verbatim>\<open>not settings or not settings[2] or not settings[3]\<close> with the two reads
  that follow it: \<open>None\<close> when the test holds (no row, an empty row, a falsy field),
  the two fields otherwise; a row too short for an index raises \<^verbatim>\<open>IndexError\<close>.
\<close>

definition read_credentials :: "pyval list option \<Rightarrow> exn + (pyval \<times> pyval) option" where
  "read_credentials settings =
     (case settings of
        None \<Rightarrow> Inr None
      | Some row \<Rightarrow>
          if row = [] then Inr None
          else (case row_index row 2 of
                  Inl err \<Rightarrow> Inl err
                | Inr tk \<Rightarrow>
                    if \<not> truthy tk then Inr None
                    else (case row_index row 3 of
                            Inl err \<Rightarrow> Inl err
                          | Inr pw \<Rightarrow> if \<not> truthy pw then Inr None else Inr (Some (tk, pw)))))"

text \<open>
  \<^verbatim>\<open>init_tbank\<close>: the new state of the client, the events, and the value returned (or
  the exception that the handler \<^verbatim>\<open>except Exception\<close> lets pass).
\<close>

definition init_tbank :: "env \<Rightarrow> client \<Rightarrow> client \<times> event list \<times> (exn + bool)" where
  "init_tbank env c =
     (case (case get_tbank_settings env of
              Inl err \<Rightarrow> Inl err
            | Inr settings \<Rightarrow> read_credentials settings) of
        Inl err \<Rightarrow>
          if is_Exception err then (c, [DbGetSettings, LogError], Inr False)
          else (c, [DbGetSettings], Inl err)
      | Inr None \<Rightarrow> (c, [DbGetSettings, LogError], Inr False)
      | Inr (Some (tk, pw)) \<Rightarrow>
          (c\<lparr>terminal_key := tk, password := pw, is_initialized := True\<rparr>,
           [DbGetSettings, LogInfo], Inr True))"

section \<open>\<^verbatim>\<open>_post\<close>\<close>

text \<open>
  \<^verbatim>\<open>_post(endpoint, data)\<close>. The dictionary \<^verbatim>\<open>data\<close> is the caller's object and is
  updated in place: the second component is that object after the call. The value
  returned is \<open>VNone\<close> when the client could not be initialised.
\<close>

definition post ::
  "pylib \<Rightarrow> env \<Rightarrow> client \<Rightarrow> pystr \<Rightarrow> dict \<Rightarrow> client \<times> dict \<times> event list \<times> (exn + pyval)" where
  "post L env c endpoint data =
     (let (c1, t1, ready) = (if is_initialized c then (c, [], Inr True) else init_tbank env c)
      in case ready of
           Inl err \<Rightarrow> (c1, data, t1, Inl err)
         | Inr False \<Rightarrow> (c1, data, t1, Inr VNone)
         | Inr True \<Rightarrow>
             (let url = base_url c1 @ endpoint;
                  data1 = dict_set data (ascii ''TerminalKey'') (terminal_key c1)
              in case generate_token L (password c1) data1 of
                   Inl err \<Rightarrow> (c1, data1, t1, Inl err)
                 | Inr token \<Rightarrow>
                     (let data2 = dict_set data1 (ascii ''Token'') (VStr token);
                          t2 = t1 @ [HttpPost url data2]
                      in case http_post env url data2 of
                           Inl err \<Rightarrow> (c1, data2, t2, Inl err)
                         | Inr result \<Rightarrow>
                             (case py_get result (ascii ''Success'') of
                                Inl err \<Rightarrow> (c1, data2, t2, Inl err)
                              | Inr ok \<Rightarrow>
                                  (c1, data2, t2 @ (if truthy ok then [] else [LogError]),
                                   Inr result)))))"

section \<open>\<^verbatim>\<open>create_payment\<close>\<close>

text \<open>
  The dictionary literal of \<^verbatim>\<open>create_payment\<close>, with the order identifier
  \<^verbatim>\<open>str(uuid.uuid4())\<close>. \<^verbatim>\<open>int(amount * 100)\<close> is the only part that can raise.
\<close>

definition init_data ::
  "pylib \<Rightarrow> env \<Rightarrow> pyfloat \<Rightarrow> pystr \<Rightarrow> pyval \<Rightarrow> pyval \<Rightarrow> pyval \<Rightarrow> exn + dict" where
  "init_data L env amount description user_id tariff_name username =
     (case int_of_float (float_mul amount float_100) of
        Inl err \<Rightarrow> Inl err
      | Inr minor \<Rightarrow>
          Inr [(ascii ''OrderId'', VStr (uuid4 env)),
               (ascii ''Amount'', VInt minor),
               (ascii ''Description'', VStr description),
               (ascii ''CustomerKey'', VStr (py_str L user_id)),
               (ascii ''DATA'',
                VDict [(ascii ''telegram_id'', user_id),
                       (ascii ''username'', if truthy username then username else VStr (ascii ''unknown'')),
                       (ascii ''tariff_name'',
                        if truthy tariff_name then tariff_name else VStr (ascii ''none''))]),
               (ascii ''SuccessURL'', VStr (ascii ''https://t.me/BURYAT_VPN_BOT'')),
               (ascii ''FailURL'', VStr (ascii ''https://t.me/BURYAT_VPN_BOT'')),
               (ascii ''NotificationURL'', VStr (ascii ''https://your-server.com/tbank/callback''))])"

text \<open>The \<^verbatim>\<open>try\<close> block of \<^verbatim>\<open>create_payment\<close>.\<close>

definition create_payment_try ::
  "pylib \<Rightarrow> env \<Rightarrow> client \<Rightarrow> pyfloat \<Rightarrow> pystr \<Rightarrow> pyval \<Rightarrow> pyval \<Rightarrow> pyval \<Rightarrow> pyval \<Rightarrow>
   client \<times> event list \<times> (exn + pyval \<times> pyval)" where
  "create_payment_try L env c amount description user_email user_id tariff_name username =
     (case init_data L env amount description user_id tariff_name username of
        Inl err \<Rightarrow> (c, [], Inl err)
      | Inr data \<Rightarrow>
          (let (c1, data1, t1, r) = post L env c (ascii ''Init'') data
           in case r of
                Inl err \<Rightarrow> (c1, t1, Inl err)
              | Inr result \<Rightarrow>
                  if \<not> truthy result then (c1, t1, Inr (VNone, VNone))
                  else (case py_get result (ascii ''Success'') of
                          Inl err \<Rightarrow> (c1, t1, Inl err)
                        | Inr ok \<Rightarrow>
                            if \<not> truthy ok then (c1, t1, Inr (VNone, VNone))
                            else (case py_get result (ascii ''PaymentId'') of
                                    Inl err \<Rightarrow> (c1, t1, Inl err)
                                  | Inr payment_id \<Rightarrow>
                                      (case py_get result (ascii ''PaymentURL'') of
                                         Inl err \<Rightarrow> (c1, t1, Inl err)
                                       | Inr payment_url \<Rightarrow>
                                           (c1, t1, Inr (payment_id, payment_url)))))))"

text \<open>
  \<^verbatim>\<open>create_payment\<close>: the \<^verbatim>\<open>try\<close> block under its handler \<^verbatim>\<open>except Exception\<close>, which
  logs and returns \<^verbatim>\<open>(None, None)\<close>.
\<close>

definition create_payment ::
  "pylib \<Rightarrow> env \<Rightarrow> client \<Rightarrow> pyfloat \<Rightarrow> pystr \<Rightarrow> pyval \<Rightarrow> pyval \<Rightarrow> pyval \<Rightarrow> pyval \<Rightarrow>
   client \<times> event list \<times> (exn + pyval \<times> pyval)" where
  "create_payment L env c amount description user_email user_id tariff_name username =
     (let (c1, t1, r) =
            create_payment_try L env c amount description user_email user_id tariff_name username
      in case r of
           Inl err \<Rightarrow>
             if is_Exception err then (c1, t1 @ [LogError], Inr (VNone, VNone))
             else (c1, t1, Inl err)
         | Inr res \<Rightarrow> (c1, t1, Inr res))"

section \<open>\<^verbatim>\<open>check_payment\<close>\<close>

text \<open>The fixed parts of the notification text, as code points.\<close>

definition msg_user :: pystr where
  "msg_user =
    [0x1F389, 0x20, 0x41D, 0x43E, 0x432, 0x430, 0x44F, 0x20, 0x43F, 0x43E,
     0x434, 0x43F, 0x438, 0x441, 0x43A, 0x430, 0x21, 0x20, 0x1F3C6, 0xA,
     0x3C, 0x62, 0x6C, 0x6F, 0x63, 0x6B, 0x71, 0x75, 0x6F, 0x74,
     0x65, 0x3E, 0x1F464, 0x20, 0x41F, 0x43E, 0x43B, 0x44C, 0x437, 0x43E,
     0x432, 0x430, 0x442, 0x435, 0x43B, 0x44C, 0x3A, 0x20]"

definition msg_tariff :: pystr where
  "msg_tariff =
    [0xA, 0x1F4B3, 0x20, 0x422, 0x430, 0x440, 0x438, 0x444, 0x3A, 0x20]"

definition msg_date :: pystr where
  "msg_date =
    [0xA, 0x1F4C5, 0x20, 0x414, 0x430, 0x442, 0x430, 0x20, 0x430, 0x43A,
     0x442, 0x438, 0x432, 0x430, 0x446, 0x438, 0x438, 0x3A, 0x20]"

definition msg_done :: pystr where
  "msg_done =
    [0xA, 0x1F680, 0x20, 0x41F, 0x43E, 0x434, 0x43F, 0x438, 0x441, 0x43A,
     0x430, 0x20, 0x443, 0x441, 0x43F, 0x435, 0x448, 0x43D, 0x43E, 0x20,
     0x43E, 0x444, 0x43E, 0x440, 0x43C, 0x43B, 0x435, 0x43D, 0x430, 0x21,
     0x3C, 0x2F, 0x62, 0x6C, 0x6F, 0x63, 0x6B, 0x71, 0x75, 0x6F,
     0x74, 0x65, 0x3E]"

text \<open>
  \<^verbatim>\<open>message_text\<close>: \<^verbatim>\<open>result.get('DATA', {}).get('tariff_name', 'N/A')\<close> raises
  \<^verbatim>\<open>AttributeError\<close> when the response holds a \<^verbatim>\<open>DATA\<close> that is not a dictionary.
\<close>

definition message_text :: "pylib \<Rightarrow> env \<Rightarrow> pyval \<Rightarrow> exn + pystr" where
  "message_text L env result =
     (case py_get result (ascii ''OrderId'') of
        Inl err \<Rightarrow> Inl err
      | Inr order_id \<Rightarrow>
          (case py_get_default result (ascii ''DATA'') (VDict []) of
             Inl err \<Rightarrow> Inl err
           | Inr meta \<Rightarrow>
               (case py_get_default meta (ascii ''tariff_name'') (VStr (ascii ''N/A'')) of
                  Inl err \<Rightarrow> Inl err
                | Inr tariff \<Rightarrow>
                    Inr (msg_user @ py_str L order_id @ msg_tariff @ py_str L tariff @
                         msg_date @ now env @ msg_done))))"

text \<open>
  The inner \<^verbatim>\<open>try\<close> of \<^verbatim>\<open>check_payment\<close> with its handler: \<^verbatim>\<open>bot.send_message\<close> is looked
  up first (\<^verbatim>\<open>AttributeError\<close> on \<^verbatim>\<open>None\<close>), then \<^verbatim>\<open>get_admin_keyboard()\<close> is called, then
  the message is sent.
\<close>

definition send_notification ::
  "env \<Rightarrow> notifier option \<Rightarrow> pyval \<Rightarrow> pystr \<Rightarrow> event list \<times> (exn + unit)" where
  "send_notification env tbot chat_id txt =
     (case tbot of
        None \<Rightarrow> ([LogError], Inr ())
      | Some send_message \<Rightarrow>
          (case get_admin_keyboard env of
             Inl err \<Rightarrow> if is_Exception err then ([LogError], Inr ()) else ([], Inl err)
           | Inr markup \<Rightarrow>
               (let sent = [SendMessage chat_id txt (ascii ''HTML'') markup]
                in case send_message chat_id txt (ascii ''HTML'') markup of
                     Inl err \<Rightarrow>
                       if is_Exception err then (sent @ [LogError], Inr ()) else (sent, Inl err)
                   | Inr u \<Rightarrow> (sent, Inr ()))))"

text \<open>
  The body of the branch taken on a confirmed payment, up to \<^verbatim>\<open>return True\<close>: the read
  of \<^verbatim>\<open>pay_notify\<close>, the test \<^verbatim>\<open>notify_settings and notify_settings[0] != 0\<close>, the text
  and the inner \<^verbatim>\<open>try\<close>.
\<close>

definition notify_admin ::
  "pylib \<Rightarrow> env \<Rightarrow> notifier option \<Rightarrow> pyval \<Rightarrow> event list \<times> (exn + unit)" where
  "notify_admin L env tbot result =
     (case fetch_pay_notify env of
        Inl err \<Rightarrow> ([DbPayNotify], Inl err)
      | Inr None \<Rightarrow> ([DbPayNotify], Inr ())
      | Inr (Some []) \<Rightarrow> ([DbPayNotify], Inr ())
      | Inr (Some (target # cols)) \<Rightarrow>
          if py_eq_int target 0 then ([DbPayNotify], Inr ())
          else (case message_text L env result of
                  Inl err \<Rightarrow> ([DbPayNotify], Inl err)
                | Inr txt \<Rightarrow>
                    (let (t, r) = send_notification env tbot target txt
                     in (DbPayNotify # t, r))))"

text \<open>The test \<^verbatim>\<open>result and result.get("Status") == "CONFIRMED"\<close>.\<close>

definition status_confirmed :: "pyval \<Rightarrow> exn + bool" where
  "status_confirmed result =
     (if truthy result
      then (case py_get result (ascii ''Status'') of
              Inl err \<Rightarrow> Inl err
            | Inr st \<Rightarrow> Inr (py_eq_str st (ascii ''CONFIRMED'')))
      else Inr False)"

text \<open>The \<^verbatim>\<open>try\<close> block of \<^verbatim>\<open>check_payment\<close>.\<close>

definition check_payment_try ::
  "pylib \<Rightarrow> env \<Rightarrow> client \<Rightarrow> pystr \<Rightarrow> notifier option \<Rightarrow> client \<times> event list \<times> (exn + bool)" where
  "check_payment_try L env c payment_id tbot =
     (let (c1, data1, t1, r) =
            post L env c (ascii ''GetState'') [(ascii ''PaymentId'', VStr payment_id)]
      in case r of
           Inl err \<Rightarrow> (c1, t1, Inl err)
         | Inr result \<Rightarrow>
             (case status_confirmed result of
                Inl err \<Rightarrow> (c1, t1, Inl err)
              | Inr True \<Rightarrow>
                  (let (t2, r2) = notify_admin L env tbot result
                   in case r2 of
                        Inl err \<Rightarrow> (c1, t1 @ LogInfo # t2, Inl err)
                      | Inr u \<Rightarrow> (c1, t1 @ LogInfo # t2, Inr True))
              | Inr False \<Rightarrow>
                  (case py_get result (ascii ''Status'') of
                     Inl err \<Rightarrow> (c1, t1, Inl err)
                   | Inr st \<Rightarrow> (c1, t1 @ [LogInfo], Inr False))))"

text \<open>
  \<^verbatim>\<open>check_payment\<close>: the \<^verbatim>\<open>try\<close> block under its handler \<^verbatim>\<open>except Exception\<close>, which
  logs and returns \<^verbatim>\<open>False\<close>.
\<close>

definition check_payment ::
  "pylib \<Rightarrow> env \<Rightarrow> client \<Rightarrow> pystr \<Rightarrow> notifier option \<Rightarrow> client \<times> event list \<times> (exn + bool)" where
  "check_payment L env c payment_id tbot =
     (let (c1, t1, r) = check_payment_try L env c payment_id tbot
      in case r of
           Inl err \<Rightarrow>
             if is_Exception err then (c1, t1 @ [LogError], Inr False) else (c1, t1, Inl err)
         | Inr b \<Rightarrow> (c1, t1, Inr b))"

section \<open>Observations\<close>

text \<open>
  The parts of an outcome: of \<open>init_tbank\<close>, \<open>create_payment\<close> and \<open>check_payment\<close>
  (state, events, value returned or exception raised), and of \<open>post\<close> (with the caller's
  dictionary after the call).
\<close>

definition events :: "client \<times> event list \<times> 'r \<Rightarrow> event list" where
  "events x = fst (snd x)"

definition returned :: "client \<times> event list \<times> 'r \<Rightarrow> 'r" where
  "returned x = snd (snd x)"

definition post_data :: "client \<times> dict \<times> event list \<times> 'r \<Rightarrow> dict" where
  "post_data x = fst (snd x)"

definition post_events :: "client \<times> dict \<times> event list \<times> 'r \<Rightarrow> event list" where
  "post_events x = fst (snd (snd x))"

definition post_returned :: "client \<times> dict \<times> event list \<times> 'r \<Rightarrow> 'r" where
  "post_returned x = snd (snd (snd x))"

text \<open>The HTTP requests among the events (URL and JSON body), and the messages sent.\<close>

fun http_requests :: "event list \<Rightarrow> (pystr \<times> dict) list" where
  "http_requests [] = []"
| "http_requests (HttpPost url body # es) = (url, body) # http_requests es"
| "http_requests (e # es) = http_requests es"

fun sent_messages :: "event list \<Rightarrow> event list" where
  "sent_messages [] = []"
| "sent_messages (SendMessage chat_id txt mode markup # es) =
     SendMessage chat_id txt mode markup # sent_messages es"
| "sent_messages (e # es) = sent_messages es"

text \<open>The keys of a dictionary, and a field of a response (\<open>VNone\<close> when it is missing).\<close>

definition keys :: "dict \<Rightarrow> pystr set" where
  "keys d = fst ` set d"

definition field :: "dict \<Rightarrow> pystr \<Rightarrow> pyval" where
  "field d k = (case map_of d k of None \<Rightarrow> VNone | Some v \<Rightarrow> v)"

text \<open>
  The signature as the specification words it, on the mapping that the signed copy
  denotes: the values in the order of their sorted keys, their texts concatenated,
  encoded as UTF-8, hashed, printed in hexadecimal.
\<close>

definition token_of_mapping :: "pylib \<Rightarrow> (pystr \<rightharpoonup> pyval) \<Rightarrow> exn + pystr" where
  "token_of_mapping L m =
     (case utf8_encode (concat (map (\<lambda>k. py_str L (the (m k))) (sorted_list_of_set (dom m)))) of
        Inl err \<Rightarrow> Inl err
      | Inr bs \<Rightarrow> Inr (hexdigest (sha256 bs)))"

text \<open>
  The processor reports a confirmed payment: the response is a dictionary whose
  \<^verbatim>\<open>Status\<close> is the string \<^verbatim>\<open>CONFIRMED\<close>.
\<close>

fun reports_confirmed :: "pyval \<Rightarrow> bool" where
  "reports_confirmed (VDict d) = (map_of d (ascii ''Status'') = Some (VStr (ascii ''CONFIRMED'')))"
| "reports_confirmed _ = False"

text \<open>
  The settings store holds no usable credentials: no row, or a terminal key (column 2)
  or a password (column 3) that is missing from the row or falsy (empty, \<^verbatim>\<open>None\<close>, zero).
\<close>

definition column_empty :: "pyval list \<Rightarrow> nat \<Rightarrow> bool" where
  "column_empty row i = (length row \<le> i \<or> \<not> truthy (row ! i))"

fun credentials_missing :: "pyval list option \<Rightarrow> bool" where
  "credentials_missing None = True"
| "credentials_missing (Some row) = (column_empty row 2 \<or> column_empty row 3)"

text \<open>
  Every exception that a collaborator raises derives from \<^verbatim>\<open>Exception\<close>.
\<close>

definition raised_Exception :: "exn + 'a \<Rightarrow> bool" where
  "raised_Exception r = (case r of Inl err \<Rightarrow> is_Exception err | Inr v \<Rightarrow> True)"


text \<open>
  The number that a finite float denotes, and the truncation of a number towards zero.
\<close>

fun float_val :: "pyfloat \<Rightarrow> real" where
  "float_val (Finite s m e) = (if s then - 1 else 1) * real m * 2 powi e"
| "float_val _ = 0"


subsection \<open>Concrete inputs\<close>

text \<open>
  Inputs for the concrete runs below: an instance of the interpreter's \<^verbatim>\<open>repr\<close>
  functions (single quotes around a string; no run depends on the text of a float), a
  client that holds credentials, and collaborators that answer every request with one
  response, hold no credentials and no notification target.
\<close>

definition demo_lib :: pylib where
  "demo_lib = \<lparr>repr_str = (\<lambda>s. 39 # s @ [39]), repr_float = (\<lambda>x. ascii ''nan'')\<rparr>"

definition demo_client :: client where
  "demo_client =
     new_client\<lparr>is_initialized := True, terminal_key := VStr (ascii ''TK1''),
                password := VStr (ascii ''secret'')\<rparr>"

definition demo_env :: "pyval \<Rightarrow> env" where
  "demo_env response =
     \<lparr>get_tbank_settings = Inr None, http_post = (\<lambda>url body. Inr response),
      fetch_pay_notify = Inr None, get_admin_keyboard = Inr VNone,
      uuid4 = ascii ''0b0e7d2c-5a1f-4c3e-9d2a-7f6b8c9d0e1f'',
      now = ascii ''2024-01-01 00:00:00''\<rparr>"

section \<open>Dictionaries and the sorted items\<close>

lemma map_of_dict_set: "map_of (dict_set d k v) = (map_of d)(k \<mapsto> v)"
  by (induction d k v rule: dict_set.induct) (auto simp: fun_eq_iff)

lemma keys_dict_set: "keys (dict_set d k v) = insert k (keys d)"
  unfolding keys_def by (induction d k v rule: dict_set.induct) auto

lemma distinct_dict_set: "distinct (map fst d) \<Longrightarrow> distinct (map fst (dict_set d k v))"
proof (induction d k v rule: dict_set.induct)
  case (1 k v)
  then show ?case by simp
next
  case (2 k' v' d k v)
  have "fst ` set (dict_set d k v) = insert k (fst ` set d)"
    using keys_dict_set [of d k v] by (simp add: keys_def)
  with 2 show ?case by auto
qed

lemma dict_set_member: "(k, v) \<in> set (dict_set d k v)"
  by (induction d k v rule: dict_set.induct) auto

lemma map_insort_key_fst:
  "map fst (insort_key fst x ys) = insort (fst x) (map fst ys)"
  by (induction ys) auto

lemma map_fst_sort_key: "map fst (sort_key fst xs) = sort (map fst xs)"
  by (induction xs) (simp_all add: map_insort_key_fst)

lemma sort_key_fst_canonical:
  assumes "distinct (map fst xs)"
  shows "sort_key fst xs =
         map (\<lambda>k. (k, the (map_of xs k))) (sorted_list_of_set (dom (map_of xs)))"
proof -
  have keys: "sorted_list_of_set (dom (map_of xs)) = map fst (sort_key fst xs)"
    using assms
    by (simp add: dom_map_of_conv_image_fst map_fst_sort_key sorted_list_of_set_sort_remdups
        distinct_remdups_id flip: set_map)
  have "map (\<lambda>k. (k, the (map_of xs k))) (map fst (sort_key fst xs)) = sort_key fst xs"
  proof -
    have "\<And>z. z \<in> set (sort_key fst xs) \<Longrightarrow> (fst z, the (map_of xs (fst z))) = z"
    proof -
      fix z assume "z \<in> set (sort_key fst xs)"
      then have "z \<in> set xs" by simp
      with assms have "map_of xs (fst z) = Some (snd z)"
        by (simp add: map_of_is_SomeI)
      then show "(fst z, the (map_of xs (fst z))) = z" by simp
    qed
    then have "map ((\<lambda>k. (k, the (map_of xs k))) \<circ> fst) (sort_key fst xs) = sort_key fst xs"
      by (intro map_idI) simp
    then show ?thesis by simp
  qed
  with keys show ?thesis by simp
qed

lemma generate_token_mapping:
  assumes "distinct (map fst P)"
  shows "generate_token L pw P = token_of_mapping L ((map_of P)(ascii ''Password'' \<mapsto> pw))"
proof -
  have "distinct (map fst (dict_set P (ascii ''Password'') pw))"
    using assms by (rule distinct_dict_set)
  then show ?thesis
    by (simp add: generate_token_def token_of_mapping_def sort_key_fst_canonical
        map_of_dict_set comp_def)
qed


section \<open>Outcomes of the operations\<close>

lemmas demo_defs = demo_lib_def demo_client_def demo_env_def new_client_def

lemma http_requests_append: "http_requests (xs @ ys) = http_requests xs @ http_requests ys"
  by (induction xs rule: http_requests.induct) auto




lemma py_get_default_error: "py_get_default v k dflt = Inl err \<Longrightarrow> err = AttributeError"
  by (cases v) auto

lemma py_get_error: "py_get v k = Inl err \<Longrightarrow> err = AttributeError"
  by (simp add: py_get_def py_get_default_error)

lemma py_get_dict: "py_get (VDict d) k = Inr (field d k)"
  by (simp add: py_get_def field_def)

lemma py_get_Inr: "py_get v k = Inr x \<Longrightarrow> \<exists>d. v = VDict d"
  by (cases v) (auto simp: py_get_def)

lemma generate_token_uses_password:
  assumes "generate_token L pw d = Inr token"
  shows "\<exists>before after bs. utf8_encode (before @ py_str L pw @ after) = Inr bs \<and>
           token = hexdigest (sha256 bs)"
proof -
  let ?items = "sort_key fst (dict_set d (ascii ''Password'') pw)"
  have "(ascii ''Password'', pw) \<in> set ?items"
    by (simp add: dict_set_member)
  then obtain ys zs where split: "?items = ys @ (ascii ''Password'', pw) # zs"
    by (meson split_list)
  obtain bs where bs: "utf8_encode (concat (map (\<lambda>kv. py_str L (snd kv)) ?items)) = Inr bs"
    and token: "token = hexdigest (sha256 bs)"
    using assms by (auto simp: generate_token_def Let_def split: sum.splits)
  from bs have "utf8_encode (concat (map (\<lambda>kv. py_str L (snd kv)) ys) @ py_str L pw @
      concat (map (\<lambda>kv. py_str L (snd kv)) zs)) = Inr bs"
    by (simp add: split)
  with token show ?thesis by blast
qed

lemma ascii_neq [simp]:
  "ascii ''Password'' \<noteq> ascii ''Token''" "ascii ''Password'' \<noteq> ascii ''TerminalKey''"
  "ascii ''Token'' \<noteq> ascii ''TerminalKey''" "ascii ''TerminalKey'' \<noteq> ascii ''Token''"
  by (simp_all add: ascii_def)


section \<open>The signature does not depend on the insertion order\<close>

text \<open>
  C1. For every payload, given as two dictionaries \<open>P\<close> and \<open>P'\<close> with the same items in
  different insertion orders, and fixed cached credentials, the token that the signing
  step of \<^verbatim>\<open>_post\<close> computes (after it has put the terminal key into the payload) is the
  same; and it is the signature of the specification: the values of the payload with
  the terminal key and the password, in the order of their sorted keys, their texts
  concatenated, encoded as UTF-8, hashed with SHA-256 and printed in lowercase
  hexadecimal (or the encoder's error when the text has no UTF-8 encoding).
\<close>

theorem token_order_independent:
  assumes "distinct (map fst P)" and "distinct (map fst P')" and "set P = set P'"
  shows "generate_token L (password c) (dict_set P (ascii ''TerminalKey'') (terminal_key c)) =
         generate_token L (password c) (dict_set P' (ascii ''TerminalKey'') (terminal_key c)) \<and>
         generate_token L (password c) (dict_set P (ascii ''TerminalKey'') (terminal_key c)) =
         token_of_mapping L
           ((map_of P)(ascii ''TerminalKey'' \<mapsto> terminal_key c, ascii ''Password'' \<mapsto> password c))"
proof -
  have same: "map_of P = map_of P'"
    using assms by (simp add: map_of_inject_set)
  have "generate_token L (password c) (dict_set Q (ascii ''TerminalKey'') (terminal_key c)) =
        token_of_mapping L
          ((map_of Q)(ascii ''TerminalKey'' \<mapsto> terminal_key c, ascii ''Password'' \<mapsto> password c))"
    if "distinct (map fst Q)" for Q
    using that by (simp add: generate_token_mapping distinct_dict_set map_of_dict_set)
  from this [of P] this [of P'] assms same show ?thesis by simp
qed

theorem token_order_independent_witness:
  "generate_token demo_lib (password demo_client)
     (dict_set [(ascii ''PaymentId'', VStr (ascii ''pid1'')), (ascii ''Amount'', VInt 1000)]
        (ascii ''TerminalKey'') (terminal_key demo_client)) =
   generate_token demo_lib (password demo_client)
     (dict_set [(ascii ''Amount'', VInt 1000), (ascii ''PaymentId'', VStr (ascii ''pid1''))]
        (ascii ''TerminalKey'') (terminal_key demo_client))"
  using token_order_independent
    [of "[(ascii ''PaymentId'', VStr (ascii ''pid1'')), (ascii ''Amount'', VInt 1000)]"
        "[(ascii ''Amount'', VInt 1000), (ascii ''PaymentId'', VStr (ascii ''pid1''))]"
        demo_lib demo_client]
  by (simp add: ascii_def insert_commute)

section \<open>The password and the request body\<close>

text \<open>
  C2, as amended. For every payload that holds no \<^verbatim>\<open>Password\<close> field of its own, given to
  \<^verbatim>\<open>_post\<close> on an initialised client: the JSON body of every HTTP request made has no
  \<^verbatim>\<open>Password\<close> field, and the \<^verbatim>\<open>Token\<close> it carries is the hash of a text of which the
  text of the cached password is a part.
\<close>

theorem signed_body_without_password:
  assumes "is_initialized c" and "ascii ''Password'' \<notin> keys data"
  shows "\<forall>(url, body) \<in> set (http_requests (post_events (post L env c endpoint data))).
           ascii ''Password'' \<notin> keys body \<and>
           (\<exists>before after bs.
              utf8_encode (before @ py_str L (password c) @ after) = Inr bs \<and>
              map_of body (ascii ''Token'') = Some (VStr (hexdigest (sha256 bs))))"
proof (cases "generate_token L (password c) (dict_set data (ascii ''TerminalKey'') (terminal_key c))")
  case (Inl err)
  with assms show ?thesis
    by (simp add: post_def post_events_def Let_def)
next
  case (Inr token)
  let ?body = "dict_set (dict_set data (ascii ''TerminalKey'') (terminal_key c))
                 (ascii ''Token'') (VStr token)"
  have req: "http_requests (post_events (post L env c endpoint data)) =
             [(base_url c @ endpoint, ?body)]"
    using assms(1) Inr
    by (auto simp: post_def post_events_def Let_def http_requests_append split: sum.splits)
  have "ascii ''Password'' \<notin> keys ?body"
    using assms(2) by (simp add: keys_dict_set)
  moreover have "map_of ?body (ascii ''Token'') = Some (VStr token)"
    by (simp add: map_of_dict_set)
  ultimately show ?thesis
    using generate_token_uses_password [OF Inr] req by auto
qed

theorem signed_body_without_password_witness:
  "(case http_requests (post_events (post demo_lib (demo_env (VDict [])) demo_client
            (ascii ''GetState'') [(ascii ''PaymentId'', VStr (ascii ''pid1''))])) of
      [(url, body)] \<Rightarrow>
        ascii ''Password'' \<notin> keys body \<and>
        (\<exists>before after bs.
           utf8_encode (before @ py_str demo_lib (password demo_client) @ after) = Inr bs \<and>
           map_of body (ascii ''Token'') = Some (VStr (hexdigest (sha256 bs))))
    | _ \<Rightarrow> False)"
proof -
  have req: "http_requests (post_events (post demo_lib (demo_env (VDict [])) demo_client
      (ascii ''GetState'') [(ascii ''PaymentId'', VStr (ascii ''pid1''))])) =
   [(ascii ''https://ecom.tinkoff.ru/api/v2/GetState'',
     [(ascii ''PaymentId'', VStr (ascii ''pid1'')),
      (ascii ''TerminalKey'', VStr (ascii ''TK1'')),
      (ascii ''Token'', VStr (hexdigest (sha256 (map of_nat (ascii ''secretpid1TK1'')))))])]"
    by (simp add: post_def post_events_def demo_defs generate_token_def ascii_def utf8_char_def
        py_get_def Let_def)
  have "is_initialized demo_client"
    and "ascii ''Password'' \<notin> keys [(ascii ''PaymentId'', VStr (ascii ''pid1''))]"
    by (simp_all add: demo_defs keys_def ascii_def)
  from signed_body_without_password [OF this, of demo_lib "demo_env (VDict [])" "ascii ''GetState''"]
  show ?thesis
    unfolding req by simp
qed


text \<open>
  C2 as stated fails on a payload that holds a \<^verbatim>\<open>Password\<close> field: \<^verbatim>\<open>_post\<close> sends the
  caller's dictionary, so the body of the request holds that field, here with the
  cached password as its value.
\<close>

theorem password_field_counterexample:
  "map (\<lambda>(url, body). map_of body (ascii ''Password''))
     (http_requests (post_events (post demo_lib (demo_env (VDict [])) demo_client (ascii ''GetState'')
        [(ascii ''Password'', VStr (ascii ''secret''))]))) = [Some (VStr (ascii ''secret''))] \<and>
   password demo_client = VStr (ascii ''secret'') \<and> is_initialized demo_client"
  by (simp add: post_def post_events_def demo_defs generate_token_def ascii_def utf8_char_def
        py_get_def Let_def)

section \<open>Outcomes of \<^verbatim>\<open>_post\<close> and of the float operations\<close>

lemma returned_simps [simp]: "returned (c, t, r) = r" "events (c, t, r) = t"
  by (simp_all add: returned_def events_def)

lemma post_simps [simp]:
  "post_data (c, d, t, r) = d" "post_events (c, d, t, r) = t" "post_returned (c, d, t, r) = r"
  by (simp_all add: post_data_def post_events_def post_returned_def)


lemma post_returns:
  assumes "post_returned (post L env c endpoint data) = Inr result"
  shows "result = VNone \<or> (\<exists>d. result = VDict d)"
  using assms
  by (auto simp: post_def Let_def split: if_splits prod.splits sum.splits bool.splits
      dest: py_get_Inr)

lemma float_10_times_100: "float_mul (Finite False 10 0) float_100 = Finite False 1000 0"
  by (simp add: float_100_def round_double_def bit_length.simps Let_def)

lemmas run_defs =
  post_def generate_token_def init_data_def create_payment_def create_payment_try_def
  check_payment_def check_payment_try_def status_confirmed_def notify_admin_def
  init_tbank_def read_credentials_def row_index_def
  message_text_def send_notification_def py_get_def str_int_def nat_digits.simps
  utf8_char_def ascii_def Let_def demo_defs

lemma int_of_float_error: "int_of_float x = Inl err \<Longrightarrow> is_Exception err"
  by (cases x) (auto simp: Let_def)

lemma init_data_error:
  "init_data L env amount description user_id tariff_name username = Inl err \<Longrightarrow> is_Exception err"
  by (auto simp: init_data_def split: sum.splits dest: int_of_float_error)

lemma status_confirmed_reports:
  "status_confirmed result = Inr b \<Longrightarrow> b = reports_confirmed result"
  by (cases result)
     (auto simp: status_confirmed_def py_get_def split: if_splits option.splits
           elim: py_eq_str.elims)

lemma status_confirmed_error:
  "status_confirmed result = Inl err \<Longrightarrow> err = AttributeError \<and> \<not> reports_confirmed result"
  by (cases result) (auto simp: status_confirmed_def py_get_def split: if_splits)

lemma not_confirmed_status:
  "status_confirmed result = Inr False \<Longrightarrow>
   py_get result (ascii ''Status'') = Inl AttributeError \<or> (\<exists>st. py_get result (ascii ''Status'') = Inr st)"
  by (cases "py_get result (ascii ''Status'')") (auto dest: py_get_error)

lemma init_tbank_quiet:
  "http_requests (events (init_tbank env c)) = []"
  "sent_messages (events (init_tbank env c)) = []"
  by (auto simp: init_tbank_def split: sum.splits option.splits)


lemma demo_get_state:
  "post_returned (post demo_lib ((demo_env (VDict resp))\<lparr>fetch_pay_notify := notify\<rparr>) demo_client
      (ascii ''GetState'') [(ascii ''PaymentId'', VStr (ascii ''pid1''))]) = Inr (VDict resp)"
  by (cases resp) (simp_all add: run_defs)

subsection \<open>Where an exception can come from\<close>

lemma raised_Exception_Inl: "raised_Exception (Inl err) = is_Exception err"
  by (simp add: raised_Exception_def)









subsection \<open>Truncation and exact products\<close>






text \<open>
  Two amounts of the kind the module receives. The double nearest to 19.99 is
  \<open>5626684784446013 * 2\<^sup>-\<^sup>4\<^sup>8\<close>, and \<^verbatim>\<open>int(19.99 * 100)\<close> is 1998. The double nearest to 0.3 is
  \<open>5404319552844595 * 2\<^sup>-\<^sup>5\<^sup>4\<close>: its exact product with 100 lies below 30, the float
  product is rounded to \<^verbatim>\<open>30.0\<close>, and \<^verbatim>\<open>int(0.3 * 100)\<close> is 30.
\<close>

lemma minor_units_of_19_99:
  "int_of_float (float_mul (Finite False 5626684784446013 (- 48)) float_100) = Inr 1998"
  by (simp add: float_100_def round_double_def bit_length.simps Let_def)

lemma minor_units_of_0_3:
  "int_of_float (float_mul (Finite False 5404319552844595 (- 54)) float_100) = Inr 30"
  "\<lfloor>100 * float_val (Finite False 5404319552844595 (- 54))\<rfloor> = 29"
  by (simp_all add: float_100_def round_double_def bit_length.simps Let_def power_int_def
      floor_eq_iff field_simps)



section \<open>The result of \<^verbatim>\<open>create_payment\<close>\<close>

text \<open>
  C3. For every response mapping that the processor returns to the \<^verbatim>\<open>Init\<close> call (the
  value that \<^verbatim>\<open>_post\<close> hands back), \<^verbatim>\<open>create_payment\<close> returns the pair of the
  response's \<^verbatim>\<open>PaymentId\<close> and \<^verbatim>\<open>PaymentURL\<close> if the response is present (not empty) and
  its \<^verbatim>\<open>Success\<close> field is truthy, and \<^verbatim>\<open>(None, None)\<close> otherwise. The witness holds the
  two responses of the claim.
\<close>

theorem create_payment_result:
  assumes "init_data L env amount description user_id tariff_name username = Inr data"
    and "post_returned (post L env c (ascii ''Init'') data) = Inr (VDict resp)"
  shows "returned (create_payment L env c amount description user_email user_id tariff_name username) =
         Inr (if resp \<noteq> [] \<and> truthy (field resp (ascii ''Success''))
              then (field resp (ascii ''PaymentId''), field resp (ascii ''PaymentURL''))
              else (VNone, VNone))"
proof -
  obtain c1 data1 t1 where "post L env c (ascii ''Init'') data = (c1, data1, t1, Inr (VDict resp))"
    using assms(2) by (cases "post L env c (ascii ''Init'') data") auto
  with assms(1) show ?thesis
    by (simp add: create_payment_def create_payment_try_def py_get_dict)
qed

theorem create_payment_result_witness:
  "returned (create_payment demo_lib
      (demo_env (VDict [(ascii ''Success'', VBool True), (ascii ''PaymentId'', VStr (ascii ''pid1'')),
                        (ascii ''PaymentURL'', VStr (ascii ''https://pay/x''))]))
      demo_client (Finite False 10 0) (ascii ''X'') VNone VNone VNone VNone) =
   Inr (VStr (ascii ''pid1''), VStr (ascii ''https://pay/x'')) \<and>
   returned (create_payment demo_lib (demo_env (VDict [(ascii ''Success'', VBool False)]))
      demo_client (Finite False 10 0) (ascii ''X'') VNone VNone VNone VNone) =
   Inr (VNone, VNone)"
proof -
  have run: "\<exists>data. init_data demo_lib (demo_env (VDict resp)) (Finite False 10 0) (ascii ''X'')
                 VNone VNone VNone = Inr data \<and>
               post_returned (post demo_lib (demo_env (VDict resp)) demo_client (ascii ''Init'') data) =
               Inr (VDict resp)" for resp
    by (cases resp) (simp_all add: float_10_times_100 run_defs)
  have "returned (create_payment demo_lib (demo_env (VDict resp)) demo_client (Finite False 10 0)
          (ascii ''X'') VNone VNone VNone VNone) =
        Inr (if resp \<noteq> [] \<and> truthy (field resp (ascii ''Success''))
              then (field resp (ascii ''PaymentId''), field resp (ascii ''PaymentURL''))
              else (VNone, VNone))" for resp
    using run [of resp] create_payment_result by blast
  from this [of "[(ascii ''Success'', VBool True), (ascii ''PaymentId'', VStr (ascii ''pid1'')),
                  (ascii ''PaymentURL'', VStr (ascii ''https://pay/x''))]"]
       this [of "[(ascii ''Success'', VBool False)]"]
  show ?thesis
    by (simp add: field_def ascii_def)
qed

section \<open>The result of \<^verbatim>\<open>check_payment\<close>\<close>

text \<open>
  C4, as amended. For every payment identifier and every value that \<^verbatim>\<open>_post\<close> hands back
  for \<^verbatim>\<open>GetState\<close>: \<^verbatim>\<open>check_payment\<close> returns \<^verbatim>\<open>True\<close> if and only if the response is
  present with a \<^verbatim>\<open>Status\<close> that is exactly \<^verbatim>\<open>CONFIRMED\<close> and the notification step that
  follows (the read of the notification target, the text of the message, the send)
  raises nothing that leaves its inner handler; for every other status and for a
  missing response it returns \<^verbatim>\<open>False\<close>.
\<close>

theorem check_payment_true_iff:
  assumes "post_returned (post L env c (ascii ''GetState'') [(ascii ''PaymentId'', VStr payment_id)]) =
           Inr result"
  shows "(returned (check_payment L env c payment_id tbot) = Inr True \<longleftrightarrow>
            reports_confirmed result \<and> snd (notify_admin L env tbot result) = Inr ()) \<and>
         (\<not> reports_confirmed result \<longrightarrow>
            returned (check_payment L env c payment_id tbot) = Inr False)"
proof -
  obtain c1 data1 t1 where run:
    "post L env c (ascii ''GetState'') [(ascii ''PaymentId'', VStr payment_id)] =
     (c1, data1, t1, Inr result)"
    using assms
    by (cases "post L env c (ascii ''GetState'') [(ascii ''PaymentId'', VStr payment_id)]") auto
  obtain t2 r2 where notify: "notify_admin L env tbot result = (t2, r2)"
    by (cases "notify_admin L env tbot result") auto
  show ?thesis
  proof (cases "status_confirmed result")
    case (Inl err)
    with status_confirmed_error [OF Inl] run show ?thesis
      by (simp add: check_payment_def check_payment_try_def)
  next
    case (Inr b)
    note b = status_confirmed_reports [OF Inr]
    show ?thesis
    proof (cases b)
      case True
      with Inr b run notify show ?thesis
        by (cases r2) (auto simp: check_payment_def check_payment_try_def)
    next
      case False
      with Inr b run not_confirmed_status [of result] show ?thesis
        by (auto simp: check_payment_def check_payment_try_def)
    qed
  qed
qed

theorem check_payment_true_iff_witness:
  "returned (check_payment demo_lib
      ((demo_env (VDict [(ascii ''Status'', VStr (ascii ''CONFIRMED''))]))\<lparr>fetch_pay_notify := Inr None\<rparr>)
      demo_client (ascii ''pid1'') None) = Inr True \<and>
   returned (check_payment demo_lib
      ((demo_env (VDict [(ascii ''Status'', VStr (ascii ''NEW''))]))\<lparr>fetch_pay_notify := Inr None\<rparr>)
      demo_client (ascii ''pid1'') None) = Inr False"
  using check_payment_true_iff
      [OF demo_get_state
        [where resp = "[(ascii ''Status'', VStr (ascii ''CONFIRMED''))]" and notify = "Inr None"],
       of None]
    check_payment_true_iff
      [OF demo_get_state
        [where resp = "[(ascii ''Status'', VStr (ascii ''NEW''))]" and notify = "Inr None"],
       of None]
  by (simp add: notify_admin_def demo_env_def ascii_def)

text \<open>
  C4 as stated fails when the processor reports \<^verbatim>\<open>CONFIRMED\<close> and the read of the
  notification target raises: the outer handler turns the error into \<^verbatim>\<open>False\<close>.
\<close>

theorem confirmed_store_error_counterexample:
  "reports_confirmed (VDict [(ascii ''Status'', VStr (ascii ''CONFIRMED''))]) \<and>
   post_returned (post demo_lib
      ((demo_env (VDict [(ascii ''Status'', VStr (ascii ''CONFIRMED''))]))
         \<lparr>fetch_pay_notify := Inl (CollaboratorError ''OperationalError'')\<rparr>)
      demo_client (ascii ''GetState'') [(ascii ''PaymentId'', VStr (ascii ''pid1''))]) =
     Inr (VDict [(ascii ''Status'', VStr (ascii ''CONFIRMED''))]) \<and>
   returned (check_payment demo_lib
      ((demo_env (VDict [(ascii ''Status'', VStr (ascii ''CONFIRMED''))]))
         \<lparr>fetch_pay_notify := Inl (CollaboratorError ''OperationalError'')\<rparr>)
      demo_client (ascii ''pid1'') None) = Inr False"
  by (simp add: run_defs)

section \<open>Exceptions at the boundary of the public operations\<close>




section \<open>A client that cannot be initialised sends nothing\<close>

text \<open>
  C6. If the client is not initialised and \<^verbatim>\<open>init_tbank\<close> returns \<^verbatim>\<open>False\<close>, then
  \<^verbatim>\<open>create_payment\<close> returns \<^verbatim>\<open>(None, None)\<close>, \<^verbatim>\<open>check_payment\<close> returns \<^verbatim>\<open>False\<close>, and
  neither makes an HTTP request.
\<close>

theorem uninitialized_no_request:
  assumes "\<not> is_initialized c" and "returned (init_tbank env c) = Inr False"
  shows "returned (create_payment L env c amount description user_email user_id tariff_name username) =
           Inr (VNone, VNone) \<and>
         http_requests
           (events (create_payment L env c amount description user_email user_id tariff_name username)) = [] \<and>
         returned (check_payment L env c payment_id tbot) = Inr False \<and>
         http_requests (events (check_payment L env c payment_id tbot)) = []"
proof -
  obtain c1 t1 where init: "init_tbank env c = (c1, t1, Inr False)"
    using assms(2) by (cases "init_tbank env c") auto
  with init_tbank_quiet(1) [of env c] have quiet: "http_requests t1 = []" by simp
  have run: "post L env c endpoint data = (c1, data, t1, Inr VNone)" for endpoint data
    using assms(1) init by (simp add: post_def)
  have "returned (create_payment L env c amount description user_email user_id tariff_name username) =
           Inr (VNone, VNone) \<and>
         http_requests
           (events (create_payment L env c amount description user_email user_id tariff_name username)) = []"
  proof (cases "init_data L env amount description user_id tariff_name username")
    case (Inl err)
    with init_data_error [OF Inl] show ?thesis
      by (simp add: create_payment_def create_payment_try_def)
  next
    case (Inr data)
    with run quiet show ?thesis
      by (simp add: create_payment_def create_payment_try_def)
  qed
  moreover have "returned (check_payment L env c payment_id tbot) = Inr False \<and>
         http_requests (events (check_payment L env c payment_id tbot)) = []"
    using run quiet
    by (simp add: check_payment_def check_payment_try_def status_confirmed_def py_get_def
        http_requests_append)
  ultimately show ?thesis by simp
qed

theorem uninitialized_no_request_witness:
  "returned (create_payment demo_lib (demo_env VNone) new_client (Finite False 10 0) (ascii ''X'')
      VNone VNone VNone VNone) = Inr (VNone, VNone) \<and>
   http_requests (events (create_payment demo_lib (demo_env VNone) new_client (Finite False 10 0)
      (ascii ''X'') VNone VNone VNone VNone)) = [] \<and>
   returned (check_payment demo_lib (demo_env VNone) new_client (ascii ''pid1'') None) = Inr False \<and>
   http_requests (events (check_payment demo_lib (demo_env VNone) new_client (ascii ''pid1'') None)) = []"
proof -
  have "\<not> is_initialized new_client"
    by (simp add: new_client_def)
  moreover have "returned (init_tbank (demo_env VNone) new_client) = Inr False"
    by (simp add: init_tbank_def read_credentials_def demo_env_def)
  ultimately show ?thesis
    by (rule uninitialized_no_request)
qed

section \<open>A confirmed payment without a notification target\<close>




section \<open>The amount in minor units\<close>



section \<open>A failed initialisation\<close>

text \<open>
  C9, as amended. Whenever the settings store has no row, or the terminal key or the
  password of its row is empty or absent, \<^verbatim>\<open>init_tbank\<close> returns \<^verbatim>\<open>False\<close> and leaves the
  state of the client as it was: uninitialised if it was uninitialised before.
\<close>

theorem init_tbank_fails_unchanged:
  assumes "get_tbank_settings env = Inr settings" and "credentials_missing settings"
  shows "init_tbank env c = (c, [DbGetSettings, LogError], Inr False)"
proof (cases settings)
  case None
  with assms(1) show ?thesis
    by (simp add: init_tbank_def read_credentials_def)
next
  case (Some row)
  with assms(2) have "column_empty row 2 \<or> column_empty row 3" by simp
  then have "read_credentials (Some row) = Inr None \<or> read_credentials (Some row) = Inl IndexError"
    by (auto simp: read_credentials_def row_index_def column_empty_def)
  with assms(1) Some show ?thesis
    by (auto simp: init_tbank_def)
qed

theorem init_tbank_fails_unchanged_witness:
  "init_tbank (demo_env VNone) new_client = (new_client, [DbGetSettings, LogError], Inr False) \<and>
   init_tbank
     ((demo_env VNone)\<lparr>get_tbank_settings :=
        Inr (Some [VInt 1, VStr (ascii ''tbank''), VStr (ascii ''TK1''), VStr []])\<rparr>)
     new_client = (new_client, [DbGetSettings, LogError], Inr False) \<and>
   \<not> is_initialized new_client"
proof -
  have "get_tbank_settings (demo_env VNone) = Inr None" and "credentials_missing None"
    by (simp_all add: demo_env_def)
  note a = init_tbank_fails_unchanged [OF this, of new_client]
  have "get_tbank_settings ((demo_env VNone)\<lparr>get_tbank_settings :=
        Inr (Some [VInt 1, VStr (ascii ''tbank''), VStr (ascii ''TK1''), VStr []])\<rparr>) =
        Inr (Some [VInt 1, VStr (ascii ''tbank''), VStr (ascii ''TK1''), VStr []])"
    and "credentials_missing (Some [VInt 1, VStr (ascii ''tbank''), VStr (ascii ''TK1''), VStr []])"
    by (simp_all add: column_empty_def)
  note b = init_tbank_fails_unchanged [OF this, of new_client]
  from a b show ?thesis by (simp add: new_client_def)
qed

text \<open>
  C9 as stated fails on a client that an earlier \<^verbatim>\<open>init_tbank\<close> has initialised: a later
  call that finds no row returns \<^verbatim>\<open>False\<close> and the client stays initialised.
\<close>

theorem stale_initialized_counterexample:
  "get_tbank_settings (demo_env VNone) = Inr None \<and>
   returned (init_tbank (demo_env VNone) demo_client) = Inr False \<and>
   is_initialized (fst (init_tbank (demo_env VNone) demo_client))"
  by (simp add: init_tbank_def read_credentials_def demo_defs)

section \<open>The caller's dictionary after \<^verbatim>\<open>_post\<close>\<close>

text \<open>
  C10, as amended. After a call of \<^verbatim>\<open>_post\<close> on an initialised client, the dictionary
  that the caller passed holds the cached terminal key under \<^verbatim>\<open>TerminalKey\<close>; if the
  signature could be computed it also holds it under \<^verbatim>\<open>Token\<close>, and nothing else has
  changed; if the signature could not be computed (a text to sign has no UTF-8
  encoding) the call raises and the dictionary has gained the terminal key only. In
  both cases no \<^verbatim>\<open>Password\<close> field is added.
\<close>

theorem post_updates_callers_dict:
  assumes "is_initialized c"
  shows "(\<forall>token. generate_token L (password c)
                    (dict_set data (ascii ''TerminalKey'') (terminal_key c)) = Inr token \<longrightarrow>
            post_data (post L env c endpoint data) =
              dict_set (dict_set data (ascii ''TerminalKey'') (terminal_key c))
                (ascii ''Token'') (VStr token) \<and>
            map_of (post_data (post L env c endpoint data)) (ascii ''Token'') = Some (VStr token) \<and>
            keys (post_data (post L env c endpoint data)) =
              keys data \<union> {ascii ''TerminalKey'', ascii ''Token''}) \<and>
         (\<forall>err. generate_token L (password c)
                    (dict_set data (ascii ''TerminalKey'') (terminal_key c)) = Inl err \<longrightarrow>
            post_data (post L env c endpoint data) =
              dict_set data (ascii ''TerminalKey'') (terminal_key c) \<and>
            post_returned (post L env c endpoint data) = Inl err \<and>
            keys (post_data (post L env c endpoint data)) = keys data \<union> {ascii ''TerminalKey''}) \<and>
         map_of (post_data (post L env c endpoint data)) (ascii ''TerminalKey'') =
           Some (terminal_key c) \<and>
         (ascii ''Password'' \<in> keys (post_data (post L env c endpoint data)) \<longleftrightarrow>
            ascii ''Password'' \<in> keys data)"
proof (cases "generate_token L (password c) (dict_set data (ascii ''TerminalKey'') (terminal_key c))")
  case (Inl err)
  with assms have "post_data (post L env c endpoint data) =
      dict_set data (ascii ''TerminalKey'') (terminal_key c)"
    and "post_returned (post L env c endpoint data) = Inl err"
    by (simp_all add: post_def Let_def)
  with Inl show ?thesis
    by (auto simp: keys_dict_set map_of_dict_set)
next
  case (Inr token)
  with assms have "post_data (post L env c endpoint data) =
      dict_set (dict_set data (ascii ''TerminalKey'') (terminal_key c)) (ascii ''Token'') (VStr token)"
    by (auto simp: post_def Let_def split: sum.splits)
  with Inr show ?thesis
    by (auto simp: keys_dict_set map_of_dict_set)
qed

theorem post_updates_callers_dict_witness:
  "post_data (post demo_lib (demo_env (VDict [])) demo_client (ascii ''GetState'')
      [(ascii ''PaymentId'', VStr (ascii ''pid1''))]) =
   [(ascii ''PaymentId'', VStr (ascii ''pid1'')),
    (ascii ''TerminalKey'', VStr (ascii ''TK1'')),
    (ascii ''Token'', VStr (hexdigest (sha256 (map of_nat (ascii ''secretpid1TK1'')))))] \<and>
   post_data (post demo_lib (demo_env (VDict [])) demo_client (ascii ''GetState'')
      [(ascii ''PaymentId'', VStr [0xD800])]) =
   [(ascii ''PaymentId'', VStr [0xD800]), (ascii ''TerminalKey'', VStr (ascii ''TK1''))]"
proof -
  have init: "is_initialized demo_client"
    by (simp add: demo_defs)
  have "generate_token demo_lib (password demo_client)
          (dict_set [(ascii ''PaymentId'', VStr (ascii ''pid1''))] (ascii ''TerminalKey'')
             (terminal_key demo_client)) =
        Inr (hexdigest (sha256 (map of_nat (ascii ''secretpid1TK1''))))"
    by (simp add: generate_token_def demo_defs ascii_def utf8_char_def Let_def)
  moreover have "generate_token demo_lib (password demo_client)
          (dict_set [(ascii ''PaymentId'', VStr [0xD800])] (ascii ''TerminalKey'')
             (terminal_key demo_client)) = Inl UnicodeEncodeError"
    by (simp add: generate_token_def demo_defs ascii_def utf8_char_def Let_def)
  ultimately show ?thesis
    using post_updates_callers_dict [OF init, of demo_lib "[(ascii ''PaymentId'', VStr (ascii ''pid1''))]"
        "demo_env (VDict [])" "ascii ''GetState''"]
      post_updates_callers_dict [OF init, of demo_lib "[(ascii ''PaymentId'', VStr [0xD800])]"
        "demo_env (VDict [])" "ascii ''GetState''"]
    by (simp add: demo_defs ascii_def)
qed

text \<open>
  C10 as stated fails on a payload with a value that has no UTF-8 encoding (a lone
  surrogate): the signing step raises before \<^verbatim>\<open>Token\<close> is stored.
\<close>

theorem unsigned_payload_counterexample:
  "is_initialized demo_client \<and>
   post_data (post demo_lib (demo_env (VDict [])) demo_client (ascii ''GetState'')
      [(ascii ''PaymentId'', VStr [0xD800])]) =
   [(ascii ''PaymentId'', VStr [0xD800]), (ascii ''TerminalKey'', VStr (ascii ''TK1''))] \<and>
   map_of (post_data (post demo_lib (demo_env (VDict [])) demo_client (ascii ''GetState'')
      [(ascii ''PaymentId'', VStr [0xD800])])) (ascii ''Token'') = None"
  by (simp add: run_defs)

end
